theory Spec2Isabelle
  imports Complex_Main "HOL-Library.AList"
begin

section \<open>Data model\<close>

text \<open>
  The module \<open>api.py\<close> is a facade over a database connection. Everything it does is a
  sequence of requests to two collaborators (the database driver and the tabular-data
  library) and of lines printed to the console. The embedding makes both explicit: the
  world carries the state of the database, the list of requests made so far, the lines
  printed so far and the wall clock.

  A cell of a dataset is an integer, a string or a null. Floating-point cells are left
  out of the model.
\<close>

datatype val = VInt int | VStr string | VNull

text \<open>
  A \<open>pandas.DataFrame\<close> as the facade sees it: ordered column names and ordered rows.
  The facade never looks inside a dataset; it only hands it to the library.
\<close>

record dataframe =
  columns :: "string list"
  rows :: "val list list"

text \<open>The \<open>if_exists\<close> argument of \<open>DataFrame.to_sql\<close>; \<open>Fail\<close> is its default.\<close>

datatype if_exists = Fail | Replace | Append

text \<open>
  The exceptions that the collaborators raise. The facade itself has no \<open>raise\<close> and no
  \<open>try\<close>: whatever a collaborator raises leaves the method unchanged.
\<close>

datatype error = OperationalError | ProgrammingError | StatementError | ValueError

text \<open>
  One constructor per request that the source sends to a collaborator:
  \<open>inspect(engine).get_table_names()\<close>, \<open>dataframe.to_sql(name, engine, if_exists, index)\<close>,
  \<open>engine.connect()\<close>, \<open>conn.execute(text(q), params)\<close>, \<open>conn.commit()\<close>, leaving the
  \<open>with\<close> block, and \<open>pd.read_sql_query(q, engine)\<close>.
\<close>

datatype call =
    GetTableNames
  | ToSql string dataframe if_exists bool
  | Connect
  | Execute string "(string \<times> val) list"
  | Commit
  | Close
  | ReadSqlQuery string

text \<open>
  The lines printed by the source are Russian sentences with the table name spliced in.
  Each sentence is one constructor, in the order of the source:
  \<^item> \<open>TableAlreadyExists\<close>: create_table, the table is already there, nothing created;
  \<^item> \<open>TableCreated\<close>: create_table succeeded;
  \<^item> \<open>TableMissingInsert\<close>: insert_sql, the table does not exist, nothing added;
  \<^item> \<open>DataInserted\<close>: insert_sql succeeded (the same sentence for both modes);
  \<^item> \<open>TableMissingTruncate\<close>: truncate_table, the table does not exist;
  \<^item> \<open>TableTruncated\<close>: truncate_table succeeded;
  \<^item> \<open>TableMissingRead\<close>: read_sql, the table does not exist;
  \<^item> \<open>TableMissingDelete\<close>: delete_from_table, the table does not exist;
  \<^item> \<open>NothingSpecified\<close>: delete_from_table, no columns and conditions were given;
  \<^item> \<open>DataDeleted\<close>: delete_from_table succeeded;
  \<^item> \<open>ExecutionTime\<close>: the line of the timing decorator, with the formatted duration.
\<close>

datatype message =
    TableAlreadyExists string
  | TableCreated string
  | TableMissingInsert string
  | DataInserted string
  | TableMissingTruncate string
  | TableTruncated string
  | TableMissingRead string
  | TableMissingDelete string
  | NothingSpecified
  | DataDeleted string
  | ExecutionTime string

text \<open>
  The world. \<open>clock\<close> is the sequence of values that successive calls of \<open>time.time()\<close>
  return and \<open>reads\<close> counts the calls made so far, so that any two readings may lie
  any distance apart.
\<close>

record 'db world =
  db :: 'db
  calls :: "call list"
  out :: "message list"
  clock :: "nat \<Rightarrow> real"
  reads :: nat

text \<open>
  The collaborators are not part of the repository, so they are a parameter of the
  model: the driver gives, for each request, what the request answers and how it changes
  the database. A request that raises answers \<open>Inl\<close>.
\<close>

record ('db, 'r) driver =
  get_table_names :: "'db \<Rightarrow> error + string list"
  to_sql :: "string \<Rightarrow> dataframe \<Rightarrow> if_exists \<Rightarrow> bool \<Rightarrow> 'db \<Rightarrow> error + 'db"
  connect :: "'db \<Rightarrow> error + 'db"
  execute_text :: "string \<Rightarrow> (string \<times> val) list \<Rightarrow> 'db \<Rightarrow> error + 'r \<times> 'db"
  commit :: "'db \<Rightarrow> error + 'db"
  close :: "'db \<Rightarrow> 'db"
  read_sql_query :: "string \<Rightarrow> 'db \<Rightarrow> error + dataframe"

section \<open>The timing decorator\<close>

text \<open>\<open>print(...)\<close>: one more line on the console.\<close>

definition print :: "message \<Rightarrow> 'db world \<Rightarrow> 'db world" where
  "print m w = w\<lparr>out := out w @ [m]\<rparr>"

text \<open>\<open>time.time()\<close>: the next reading of the clock.\<close>

definition time_time :: "'db world \<Rightarrow> real \<times> 'db world" where
  "time_time w = (clock w (reads w), w\<lparr>reads := Suc (reads w)\<rparr>)"

text \<open>
  Modelled from the spec: \<open>time.gmtime\<close> of the standard library, which is not part of
  the repository; section 4.1 has the duration formatted "as hours-minutes-seconds" by a
  fixed-width formatter whose hours wrap from 24 hours on. \<open>time.gmtime(secs)\<close> rounds
  the seconds down to a whole number and splits them into calendar fields; only the
  three fields that the format uses are kept. The hour is the hour of the day, so whole
  days are dropped.
\<close>

record struct_time =
  tm_hour :: nat
  tm_min :: nat
  tm_sec :: nat

definition gmtime :: "real \<Rightarrow> struct_time" where
  "gmtime secs =
     (let s = \<lfloor>secs\<rfloor> mod 86400
      in \<lparr>tm_hour = nat (s div 3600), tm_min = nat (s mod 3600 div 60), tm_sec = nat (s mod 60)\<rparr>)"

text \<open>A field of \<open>strftime\<close> with two decimal digits, padded with a zero.\<close>

definition two_digits :: "nat \<Rightarrow> string" where
  "two_digits n = [''0123456789'' ! (n div 10 mod 10), ''0123456789'' ! (n mod 10)]"

text \<open>
  Modelled from the spec: \<open>time.strftime\<close> of the standard library, which is not part of
  the repository, at the format \<open>%H-%M-%S\<close> of the source: hours, minutes and seconds,
  two digits each.
\<close>

definition strftime_HMS :: "struct_time \<Rightarrow> string" where
  "strftime_HMS tm =
     two_digits (tm_hour tm) @ ''-'' @ two_digits (tm_min tm) @ ''-'' @ two_digits (tm_sec tm)"

text \<open>
  \<open>measure_execution_time(func)\<close> returns \<open>wrapper\<close>. The argument \<open>args\<close> stands for all
  positional and keyword arguments of the call, which \<open>wrapper\<close> hands to \<open>func\<close> as they
  are. When \<open>func\<close> raises, the exception leaves \<open>wrapper\<close> at that line. The difference of
  the two readings is taken exactly; the rounding of the floating-point subtraction is
  not modelled.
\<close>

definition measure_execution_time ::
  "('a \<Rightarrow> 'db world \<Rightarrow> (error + 'b) \<times> 'db world) \<Rightarrow> 'a \<Rightarrow> 'db world \<Rightarrow> (error + 'b) \<times> 'db world"
where
  "measure_execution_time func args w =
     (case time_time w of (start_time, w1) \<Rightarrow>
        (case func args w1 of
           (Inl e, w2) \<Rightarrow> (Inl e, w2)
         | (Inr result, w2) \<Rightarrow>
             (case time_time w2 of (end_time, w3) \<Rightarrow>
                (let execution_time = end_time - start_time;
                     formatted_time = strftime_HMS (gmtime execution_time)
                 in (Inr result, print (ExecutionTime formatted_time) w3)))))"

section \<open>Requests to the collaborators\<close>

text \<open>
  Each request is written to the list of calls and then answered by the driver. A
  request that raises leaves the database as it was.
\<close>

definition record_call :: "call \<Rightarrow> 'db world \<Rightarrow> 'db world" where
  "record_call c w = w\<lparr>calls := calls w @ [c]\<rparr>"

definition inspect_table_names ::
  "('db, 'r) driver \<Rightarrow> 'db world \<Rightarrow> (error + string list) \<times> 'db world" where
  "inspect_table_names D w = (get_table_names D (db w), record_call GetTableNames w)"

definition df_to_sql ::
  "('db, 'r) driver \<Rightarrow> string \<Rightarrow> dataframe \<Rightarrow> if_exists \<Rightarrow> bool \<Rightarrow> 'db world
     \<Rightarrow> (error + unit) \<times> 'db world" where
  "df_to_sql D name dataframe mode index w =
     (let w1 = record_call (ToSql name dataframe mode index) w
      in case to_sql D name dataframe mode index (db w) of
           Inl e \<Rightarrow> (Inl e, w1)
         | Inr d \<Rightarrow> (Inr (), w1\<lparr>db := d\<rparr>))"

definition engine_connect :: "('db, 'r) driver \<Rightarrow> 'db world \<Rightarrow> (error + unit) \<times> 'db world" where
  "engine_connect D w =
     (let w1 = record_call Connect w
      in case connect D (db w) of
           Inl e \<Rightarrow> (Inl e, w1)
         | Inr d \<Rightarrow> (Inr (), w1\<lparr>db := d\<rparr>))"

definition conn_execute ::
  "('db, 'r) driver \<Rightarrow> string \<Rightarrow> (string \<times> val) list \<Rightarrow> 'db world \<Rightarrow> (error + 'r) \<times> 'db world"
where
  "conn_execute D query params w =
     (let w1 = record_call (Execute query params) w
      in case execute_text D query params (db w) of
           Inl e \<Rightarrow> (Inl e, w1)
         | Inr (r, d) \<Rightarrow> (Inr r, w1\<lparr>db := d\<rparr>))"

definition conn_commit :: "('db, 'r) driver \<Rightarrow> 'db world \<Rightarrow> (error + unit) \<times> 'db world" where
  "conn_commit D w =
     (let w1 = record_call Commit w
      in case commit D (db w) of
           Inl e \<Rightarrow> (Inl e, w1)
         | Inr d \<Rightarrow> (Inr (), w1\<lparr>db := d\<rparr>))"

text \<open>Leaving a \<open>with engine.connect() as conn\<close> block, by its end or by an exception.\<close>

definition conn_close :: "('db, 'r) driver \<Rightarrow> 'db world \<Rightarrow> 'db world" where
  "conn_close D w = (record_call Close w)\<lparr>db := close D (db w)\<rparr>"

definition pd_read_sql_query ::
  "('db, 'r) driver \<Rightarrow> string \<Rightarrow> 'db world \<Rightarrow> (error + dataframe) \<times> 'db world" where
  "pd_read_sql_query D query w =
     (read_sql_query D query (db w), record_call (ReadSqlQuery query) w)"

text \<open>
  The block that truncate_table, delete_from_table and execute share:
  \<^verbatim>\<open>
  with self.engine.connect() as conn:
      result = conn.execute(text(query), params)
      conn.commit()
  \<close>
  An exception inside the block closes the connection and goes on to the caller.
\<close>

definition execute_and_commit ::
  "('db, 'r) driver \<Rightarrow> string \<Rightarrow> (string \<times> val) list \<Rightarrow> 'db world \<Rightarrow> (error + 'r) \<times> 'db world"
where
  "execute_and_commit D query params w =
     (case engine_connect D w of
        (Inl e, w1) \<Rightarrow> (Inl e, w1)
      | (Inr _, w1) \<Rightarrow>
          (case conn_execute D query params w1 of
             (Inl e, w2) \<Rightarrow> (Inl e, conn_close D w2)
           | (Inr result, w2) \<Rightarrow>
               (case conn_commit D w2 of
                  (Inl e, w3) \<Rightarrow> (Inl e, conn_close D w3)
                | (Inr _, w3) \<Rightarrow> (Inr result, conn_close D w3))))"

section \<open>The methods of DatabaseAPI\<close>

text \<open>
  Each method is given first as its body and then as the decorated method that callers
  reach. The object holds nothing but the engine, which the driver stands for.
\<close>

definition create_table_body ::
  "('db, 'r) driver \<Rightarrow> string \<times> dataframe \<Rightarrow> 'db world \<Rightarrow> (error + unit) \<times> 'db world" where
  "create_table_body D = (\<lambda>(table_name, dataframe) w.
     (case inspect_table_names D w of
        (Inl e, w1) \<Rightarrow> (Inl e, w1)
      | (Inr names, w1) \<Rightarrow>
          if table_name \<in> set names then (Inr (), print (TableAlreadyExists table_name) w1)
          else (case df_to_sql D table_name dataframe Fail False w1 of
                  (Inl e, w2) \<Rightarrow> (Inl e, w2)
                | (Inr _, w2) \<Rightarrow> (Inr (), print (TableCreated table_name) w2))))"

definition create_table ::
  "('db, 'r) driver \<Rightarrow> string \<Rightarrow> dataframe \<Rightarrow> 'db world \<Rightarrow> (error + unit) \<times> 'db world" where
  "create_table D table_name dataframe =
     measure_execution_time (create_table_body D) (table_name, dataframe)"

text \<open>
  \<open>mode\<close> is compared with the two literals and nothing else is asked of it; a value
  that is not a string behaves as a string that equals neither.
\<close>

definition insert_sql_body ::
  "('db, 'r) driver \<Rightarrow> string \<times> dataframe \<times> string \<Rightarrow> 'db world \<Rightarrow> (error + unit) \<times> 'db world"
where
  "insert_sql_body D = (\<lambda>(table_name, dataframe, mode) w.
     (case inspect_table_names D w of
        (Inl e, w1) \<Rightarrow> (Inl e, w1)
      | (Inr names, w1) \<Rightarrow>
          if table_name \<notin> set names then (Inr (), print (TableMissingInsert table_name) w1)
          else if mode = ''append'' then
            (case df_to_sql D table_name dataframe Append False w1 of
               (Inl e, w2) \<Rightarrow> (Inl e, w2)
             | (Inr _, w2) \<Rightarrow> (Inr (), print (DataInserted table_name) w2))
          else if mode = ''replace'' then
            (case df_to_sql D table_name dataframe Replace False w1 of
               (Inl e, w2) \<Rightarrow> (Inl e, w2)
             | (Inr _, w2) \<Rightarrow> (Inr (), print (DataInserted table_name) w2))
          else (Inr (), w1)))"

definition insert_sql ::
  "('db, 'r) driver \<Rightarrow> string \<Rightarrow> dataframe \<Rightarrow> string \<Rightarrow> 'db world \<Rightarrow> (error + unit) \<times> 'db world"
where
  "insert_sql D table_name dataframe mode =
     measure_execution_time (insert_sql_body D) (table_name, dataframe, mode)"

definition truncate_table_body ::
  "('db, 'r) driver \<Rightarrow> string \<Rightarrow> 'db world \<Rightarrow> (error + unit) \<times> 'db world" where
  "truncate_table_body D table_name w =
     (case inspect_table_names D w of
        (Inl e, w1) \<Rightarrow> (Inl e, w1)
      | (Inr names, w1) \<Rightarrow>
          if table_name \<notin> set names then (Inr (), print (TableMissingTruncate table_name) w1)
          else (case execute_and_commit D (''TRUNCATE TABLE '' @ table_name) [] w1 of
                  (Inl e, w2) \<Rightarrow> (Inl e, w2)
                | (Inr _, w2) \<Rightarrow> (Inr (), print (TableTruncated table_name) w2)))"

definition truncate_table ::
  "('db, 'r) driver \<Rightarrow> string \<Rightarrow> 'db world \<Rightarrow> (error + unit) \<times> 'db world" where
  "truncate_table D table_name = measure_execution_time (truncate_table_body D) table_name"

text \<open>read_sql answers \<open>None\<close> for Python's \<open>None\<close> and \<open>Some\<close> of the dataset otherwise.\<close>

definition read_sql_body ::
  "('db, 'r) driver \<Rightarrow> string \<Rightarrow> 'db world \<Rightarrow> (error + dataframe option) \<times> 'db world" where
  "read_sql_body D table_name w =
     (case inspect_table_names D w of
        (Inl e, w1) \<Rightarrow> (Inl e, w1)
      | (Inr names, w1) \<Rightarrow>
          if table_name \<notin> set names then (Inr None, print (TableMissingRead table_name) w1)
          else (case pd_read_sql_query D (''SELECT * FROM '' @ table_name) w1 of
                  (Inl e, w2) \<Rightarrow> (Inl e, w2)
                | (Inr result, w2) \<Rightarrow> (Inr (Some result), w2)))"

definition read_sql ::
  "('db, 'r) driver \<Rightarrow> string \<Rightarrow> 'db world \<Rightarrow> (error + dataframe option) \<times> 'db world" where
  "read_sql D table_name = measure_execution_time (read_sql_body D) table_name"

text \<open>\<open>sep.join(xs)\<close> of Python.\<close>

fun join :: "string \<Rightarrow> string list \<Rightarrow> string" where
  "join sep [] = []"
| "join sep [x] = x"
| "join sep (x # y # ys) = x @ sep @ join sep (y # ys)"

text \<open>The statement text that delete_from_table builds from its \<open>*columns\<close>.\<close>

definition delete_query :: "string \<Rightarrow> string list \<Rightarrow> string" where
  "delete_query table_name cols =
     ''DELETE FROM '' @ table_name @ '' WHERE ''
       @ join '' AND '' (map (\<lambda>column. column @ '' = :'' @ column) cols)"

text \<open>
  \<open>*columns\<close> is the tuple of column names and \<open>**conditions\<close> the dictionary of keyword
  arguments, here the list of its items. Both are empty exactly when Python's \<open>not\<close>
  holds of them. The body does not compare the names of the two: it builds the text from
  \<open>columns\<close> alone and hands \<open>conditions\<close> to the driver as the parameters.
\<close>

definition delete_from_table_body ::
  "('db, 'r) driver \<Rightarrow> string \<times> string list \<times> (string \<times> val) list \<Rightarrow> 'db world
     \<Rightarrow> (error + unit) \<times> 'db world" where
  "delete_from_table_body D = (\<lambda>(table_name, cols, conditions) w.
     (case inspect_table_names D w of
        (Inl e, w1) \<Rightarrow> (Inl e, w1)
      | (Inr names, w1) \<Rightarrow>
          if table_name \<notin> set names then (Inr (), print (TableMissingDelete table_name) w1)
          else if cols = [] \<or> conditions = [] then (Inr (), print NothingSpecified w1)
          else (case execute_and_commit D (delete_query table_name cols) conditions w1 of
                  (Inl e, w2) \<Rightarrow> (Inl e, w2)
                | (Inr _, w2) \<Rightarrow> (Inr (), print (DataDeleted table_name) w2))))"

definition delete_from_table ::
  "('db, 'r) driver \<Rightarrow> string \<Rightarrow> string list \<Rightarrow> (string \<times> val) list \<Rightarrow> 'db world
     \<Rightarrow> (error + unit) \<times> 'db world" where
  "delete_from_table D table_name cols conditions =
     measure_execution_time (delete_from_table_body D) (table_name, cols, conditions)"

definition execute_body ::
  "('db, 'r) driver \<Rightarrow> string \<Rightarrow> 'db world \<Rightarrow> (error + 'r) \<times> 'db world" where
  "execute_body D query w = execute_and_commit D query [] w"

definition execute :: "('db, 'r) driver \<Rightarrow> string \<Rightarrow> 'db world \<Rightarrow> (error + 'r) \<times> 'db world" where
  "execute D query = measure_execution_time (execute_body D) query"

section \<open>A reference database\<close>

text \<open>
  Modelled from the spec: the database behind the collaborators of section 6, which is
  not part of the repository. Claims about what a table holds after a method has run need
  a database to run against. The store is that database: a catalogue of tables by name,
  and the working copy of the one connection that may be open.
\<close>

record store =
  committed :: "(string \<times> dataframe) list"
  session :: "(string \<times> dataframe) list option"

text \<open>
  \<open>index=True\<close> of \<open>to_sql\<close> writes the row labels as a first column named \<open>index\<close>; the
  facade always passes \<open>index=False\<close>.
\<close>

definition with_index :: "dataframe \<Rightarrow> dataframe" where
  "with_index df =
     \<lparr>columns = ''index'' # columns df,
      rows = map (\<lambda>(i, r). VInt (int i) # r) (enumerate 0 (rows df))\<rparr>"

text \<open>A row of a dataset laid out in the columns of a table; a column not given is null.\<close>

definition relayout :: "string list \<Rightarrow> string list \<Rightarrow> val list \<Rightarrow> val list" where
  "relayout tcols dcols r =
     map (\<lambda>c. case map_of (zip dcols r) c of Some v \<Rightarrow> v | None \<Rightarrow> VNull) tcols"

text \<open>
  Modelled from the spec: the tabular-data library's "write dataset to a named table
  (create/append/replace modes)" of section 6, which is \<open>DataFrame.to_sql\<close> and is not
  part of the repository. The table name is a value here, not statement text, and names
  the table as it is. The write is committed at once.
\<close>

definition store_to_sql ::
  "string \<Rightarrow> dataframe \<Rightarrow> if_exists \<Rightarrow> bool \<Rightarrow> store \<Rightarrow> error + store" where
  "store_to_sql name df mode index s =
     (let d = (if index then with_index df else df)
      in case map_of (committed s) name of
           None \<Rightarrow> Inr (s\<lparr>committed := committed s @ [(name, d)]\<rparr>)
         | Some t \<Rightarrow>
             (case mode of
                Fail \<Rightarrow> Inl ValueError
              | Replace \<Rightarrow> Inr (s\<lparr>committed := AList.update name d (committed s)\<rparr>)
              | Append \<Rightarrow>
                  if set (columns d) \<subseteq> set (columns t)
                  then Inr (s\<lparr>committed := AList.update name
                         (t\<lparr>rows := rows t @ map (relayout (columns t) (columns d)) (rows d)\<rparr>)
                         (committed s)\<rparr>)
                  else Inl ProgrammingError))"

text \<open>\<open>strip_prefix p s\<close> is what follows \<open>p\<close> in \<open>s\<close>, when \<open>s\<close> starts with \<open>p\<close>.\<close>

fun strip_prefix :: "string \<Rightarrow> string \<Rightarrow> string option" where
  "strip_prefix [] s = Some s"
| "strip_prefix (p # ps) [] = None"
| "strip_prefix (p # ps) (c # cs) = (if p = c then strip_prefix ps cs else None)"

text \<open>The text before and after the first occurrence of a separator.\<close>

fun split_first :: "string \<Rightarrow> string \<Rightarrow> (string \<times> string) option" where
  "split_first sep [] = None"
| "split_first sep (c # cs) =
     (case strip_prefix sep (c # cs) of
        Some rest \<Rightarrow> Some ([], rest)
      | None \<Rightarrow> map_option (\<lambda>(a, b). (c # a, b)) (split_first sep cs))"

text \<open>
  All pieces between the occurrences of a separator. The fuel bounds the number of
  pieces; the length of the text is always enough.
\<close>

fun split_all :: "nat \<Rightarrow> string \<Rightarrow> string \<Rightarrow> string list" where
  "split_all 0 sep s = [s]"
| "split_all (Suc n) sep s =
     (case split_first sep s of
        None \<Rightarrow> [s]
      | Some (a, rest) \<Rightarrow> a # split_all n sep rest)"

text \<open>
  How the database reads a name that statement text spells out without quotes. The
  connection URL of \<open>create_connection\<close> names PostgreSQL, which accepts letters, digits,
  underscores and dollar signs after a first letter or underscore and folds the letters
  to lower case. Its reserved words are not modelled.
\<close>

definition lower_char :: "char \<Rightarrow> char" where
  "lower_char c =
     (case map_of (zip ''ABCDEFGHIJKLMNOPQRSTUVWXYZ'' ''abcdefghijklmnopqrstuvwxyz'') c of
        Some l \<Rightarrow> l
      | None \<Rightarrow> c)"

definition ident_start :: "char \<Rightarrow> bool" where
  "ident_start c \<longleftrightarrow>
     c \<in> set ''ABCDEFGHIJKLMNOPQRSTUVWXYZabcdefghijklmnopqrstuvwxyz_''"

definition ident_char :: "char \<Rightarrow> bool" where
  "ident_char c \<longleftrightarrow> ident_start c \<or> c \<in> set ''0123456789$''"

definition fold_ident :: "string \<Rightarrow> string option" where
  "fold_ident s =
     (case s of
        [] \<Rightarrow> None
      | c # cs \<Rightarrow> if ident_start c \<and> list_all ident_char cs then Some (map lower_char s) else None)"

text \<open>
  The rows that \<open>DELETE ... WHERE c1 = :p1 AND ...\<close> removes: every test must hold, and an
  equality with a null on either side does not hold.
\<close>

definition row_matches ::
  "(string \<Rightarrow> string option) \<Rightarrow> (string \<times> string) list \<Rightarrow> (string \<times> val) list
     \<Rightarrow> string list \<Rightarrow> val list \<Rightarrow> bool" where
  "row_matches resolve tests params cols r =
     list_all (\<lambda>(c, p).
        case (resolve c, map_of params p) of
          (Some c', Some v) \<Rightarrow> v \<noteq> VNull \<and> map_of (zip cols r) c' = Some v
        | _ \<Rightarrow> False) tests"

definition delete_rows ::
  "(string \<Rightarrow> string option) \<Rightarrow> (string \<times> string) list \<Rightarrow> (string \<times> val) list
     \<Rightarrow> dataframe \<Rightarrow> error + dataframe" where
  "delete_rows resolve tests params t =
     (if list_ex (\<lambda>(c, p). map_of params p = None) tests then Inl StatementError
      else if list_ex (\<lambda>(c, p).
                 case resolve c of None \<Rightarrow> True | Some c' \<Rightarrow> c' \<notin> set (columns t)) tests
      then Inl ProgrammingError
      else Inr (t\<lparr>rows := filter (\<lambda>r. \<not> row_matches resolve tests params (columns t) r) (rows t)\<rparr>))"

text \<open>
  Modelled from the spec: the database driver's "execute-parameterized-SQL" of section 6,
  which is \<open>Connection.execute\<close> and is not part of the repository. It understands the two
  statements that the guarded methods send, \<open>TRUNCATE TABLE name\<close> and
  \<open>DELETE FROM name WHERE c1 = :p1 AND ...\<close>, and rejects any other text. A parameter
  that the text names and the mapping lacks is refused before the statement is run.
  The statement changes the working copy of the connection only. \<open>resolve\<close> reads the
  names that the text spells out.
\<close>

definition update_table ::
  "(string \<Rightarrow> string option) \<Rightarrow> string \<Rightarrow> (dataframe \<Rightarrow> error + dataframe) \<Rightarrow> store
     \<Rightarrow> error + unit \<times> store" where
  "update_table resolve ident f s =
     (case session s of
        None \<Rightarrow> Inl OperationalError
      | Some ts \<Rightarrow>
          (case resolve ident of
             None \<Rightarrow> Inl ProgrammingError
           | Some n \<Rightarrow>
               (case map_of ts n of
                  None \<Rightarrow> Inl ProgrammingError
                | Some t \<Rightarrow>
                    (case f t of
                       Inl e \<Rightarrow> Inl e
                     | Inr t' \<Rightarrow> Inr ((), s\<lparr>session := Some (AList.update n t' ts)\<rparr>)))))"

definition store_delete ::
  "(string \<Rightarrow> string option) \<Rightarrow> string \<Rightarrow> (string \<times> val) list \<Rightarrow> store
     \<Rightarrow> error + unit \<times> store" where
  "store_delete resolve rest params s =
     (case split_first '' WHERE '' rest of
        None \<Rightarrow> Inl ProgrammingError
      | Some (ident, cond) \<Rightarrow>
          (case those (map (split_first '' = :'') (split_all (length cond) '' AND '' cond)) of
             None \<Rightarrow> Inl ProgrammingError
           | Some tests \<Rightarrow> update_table resolve ident (delete_rows resolve tests params) s))"

definition store_execute ::
  "(string \<Rightarrow> string option) \<Rightarrow> string \<Rightarrow> (string \<times> val) list \<Rightarrow> store
     \<Rightarrow> error + unit \<times> store" where
  "store_execute resolve query params s =
     (case strip_prefix ''TRUNCATE TABLE '' query of
        Some ident \<Rightarrow> update_table resolve ident (\<lambda>t. Inr (t\<lparr>rows := []\<rparr>)) s
      | None \<Rightarrow>
          (case strip_prefix ''DELETE FROM '' query of
             Some rest \<Rightarrow> store_delete resolve rest params s
           | None \<Rightarrow> Inl ProgrammingError))"

text \<open>
  Modelled from the spec: "read a query result into a dataset" of section 6, which is
  \<open>pandas.read_sql_query\<close> and is not part of the repository. It understands the one
  query that read_sql sends and reads what has been committed, in the order in which the
  rows were written.
\<close>

definition store_read_sql_query ::
  "(string \<Rightarrow> string option) \<Rightarrow> string \<Rightarrow> store \<Rightarrow> error + dataframe" where
  "store_read_sql_query resolve query s =
     (case strip_prefix ''SELECT * FROM '' query of
        None \<Rightarrow> Inl ProgrammingError
      | Some ident \<Rightarrow>
          (case resolve ident of
             None \<Rightarrow> Inl ProgrammingError
           | Some n \<Rightarrow>
               (case map_of (committed s) n of
                  None \<Rightarrow> Inl ProgrammingError
                | Some t \<Rightarrow> Inr t)))"

text \<open>
  Modelled from the spec: the driver of section 6 as a whole ("connect-by-URL,
  execute-parameterized-SQL, transactional commit, and live-schema table-name
  introspection"). Opening a connection starts from what is committed, a commit
  publishes the working copy, and closing the connection drops what was not committed.
\<close>

definition store_driver :: "(string \<Rightarrow> string option) \<Rightarrow> (store, unit) driver" where
  "store_driver resolve =
     \<lparr>get_table_names = (\<lambda>s. Inr (map fst (committed s))),
      to_sql = store_to_sql,
      connect = (\<lambda>s. Inr (s\<lparr>session := Some (committed s)\<rparr>)),
      execute_text = store_execute resolve,
      commit = (\<lambda>s. case session s of
                        None \<Rightarrow> Inl OperationalError
                      | Some ts \<Rightarrow> Inr (s\<lparr>committed := ts\<rparr>)),
      close = (\<lambda>s. s\<lparr>session := None\<rparr>),
      read_sql_query = store_read_sql_query resolve\<rparr>"

text \<open>A world that starts with the given tables, an empty history and a clock that ticks
  once a second.\<close>

definition world0 :: "(string \<times> dataframe) list \<Rightarrow> store world" where
  "world0 ts =
     \<lparr>db = \<lparr>committed = ts, session = None\<rparr>, calls = [], out = [],
      clock = (\<lambda>n. real n), reads = 0\<rparr>"

text \<open>The dataset of the demonstration script \<open>api_example_demo.py\<close>.\<close>

definition demo_df :: dataframe where
  "demo_df =
     \<lparr>columns = [''column1'', ''column2''],
      rows = [[VStr ''value1'', VStr ''value1''],
              [VStr ''value2'', VStr ''value2''],
              [VStr ''value3'', VStr ''value3'']]\<rparr>"

text \<open>A dataset whose only column the demonstration table does not have.\<close>

definition other_df :: dataframe where
  "other_df = \<lparr>columns = [''other''], rows = [[VInt 1]]\<rparr>"

text \<open>
  The driver and the world of the examples: PostgreSQL's reading of names, and a database
  that holds the demonstration table.
\<close>

definition demo_driver :: "(store, unit) driver" where
  "demo_driver = store_driver fold_ident"

definition demo_world :: "store world" where
  "demo_world = world0 [(''sample_table'', demo_df)]"

text \<open>The same world with a clock whose readings lie 25 hours apart.\<close>

definition slow_world :: "store world" where
  "slow_world = demo_world\<lparr>clock := (\<lambda>n. 90000 * real n)\<rparr>"

text \<open>The same driver with a database that cannot be reached for its schema.\<close>

definition offline_driver :: "(store, unit) driver" where
  "offline_driver = demo_driver\<lparr>get_table_names := (\<lambda>s. Inl OperationalError)\<rparr>"

text \<open>
  The line that the decorator prints for a call whose body does not read the clock: the
  two readings are the next two of the clock.
\<close>

definition elapsed_line :: "'db world \<Rightarrow> message" where
  "elapsed_line w =
     ExecutionTime (strftime_HMS (gmtime (clock w (Suc (reads w)) - clock w (reads w))))"

section \<open>The timing decorator: properties\<close>

lemmas request_defs =
  inspect_table_names_def df_to_sql_def engine_connect_def conn_execute_def conn_commit_def
  conn_close_def pd_read_sql_query_def record_call_def print_def time_time_def
  measure_execution_time_def execute_and_commit_def

lemma hour_of_day: "(s::int) mod 86400 div 3600 = s div 3600 mod 24"
proof -
  have "s mod (3600 * 24) = 3600 * (s div 3600 mod 24) + s mod 3600"
    by (rule zmod_zmult2_eq) simp
  then have "s mod 86400 div 3600 = (3600 * (s div 3600 mod 24) + s mod 3600) div 3600"
    by simp
  also have "\<dots> = s div 3600 mod 24"
    by simp
  finally show ?thesis .
qed

lemma gmtime_hour: "tm_hour (gmtime d) = nat (\<lfloor>d / 3600\<rfloor> mod 24)"
proof -
  have "\<lfloor>d / 3600\<rfloor> = \<lfloor>d\<rfloor> div 3600"
    using floor_divide_real_eq_div [of 3600 d] by simp
  then show ?thesis
    by (simp add: gmtime_def Let_def hour_of_day)
qed

lemma gmtime_next_day: "gmtime (d + 86400) = gmtime d"
proof -
  have "\<lfloor>d + 86400\<rfloor> = \<lfloor>d\<rfloor> + 86400"
    by linarith
  then show ?thesis
    by (simp add: gmtime_def)
qed

text \<open>
  Claim C9. When the wrapped operation returns, the line that the wrapper prints after
  whatever the operation printed is the elapsed time \<open>d\<close>, the end reading minus the
  start reading, formatted by the fixed-width formatter \<open>%H-%M-%S\<close>. For every such
  duration the hour that is formatted is \<open>floor (d / 3600) mod 24\<close>, the first two
  characters of the line are its two decimal digits, and a duration that is 24 hours
  longer gives the same line: the hours wrap.
\<close>

theorem timing_hours_field_wraps:
  assumes "func args (snd (time_time w)) = (Inr v, w')"
  shows "(let d = clock w' (reads w') - clock w (reads w)
          in out (snd (measure_execution_time func args w))
               = out w' @ [ExecutionTime (strftime_HMS (gmtime d))]
           \<and> tm_hour (gmtime d) = nat (\<lfloor>d / 3600\<rfloor> mod 24)
           \<and> take 2 (strftime_HMS (gmtime d)) = two_digits (nat (\<lfloor>d / 3600\<rfloor> mod 24))
           \<and> strftime_HMS (gmtime (d + 86400)) = strftime_HMS (gmtime d))"
  using assms
  by (simp add: Let_def measure_execution_time_def time_time_def print_def
      gmtime_hour gmtime_next_day strftime_HMS_def two_digits_def)

theorem timing_hours_field_wraps_witness:
  "fst (truncate_table_body demo_driver ''sample_table'' (snd (time_time slow_world))) = Inr ()
   \<and> out (snd (measure_execution_time (truncate_table_body demo_driver) ''sample_table''
                  slow_world))
       = [TableTruncated ''sample_table'', ExecutionTime ''01-00-00'']"
proof -
  let ?body = "truncate_table_body demo_driver ''sample_table'' (snd (time_time slow_world))"
  have f: "fst ?body = Inr ()"
    by code_simp
  then have h: "?body = (Inr (), snd ?body)"
    by (simp add: prod_eq_iff)
  have o: "out (snd ?body) = [TableTruncated ''sample_table'']"
    by code_simp
  have t: "strftime_HMS (gmtime (clock (snd ?body) (reads (snd ?body))
                                   - clock slow_world (reads slow_world))) = ''01-00-00''"
    by code_simp
  from timing_hours_field_wraps [of "truncate_table_body demo_driver" "''sample_table''" slow_world, OF h] f o t
  show ?thesis
    by (simp add: Let_def)
qed

text \<open>
  Claim C10. When the wrapped operation raises, the wrapper hands the exception on and
  its world is the one that the operation left: no second reading of the clock, no
  duration, no line printed.
\<close>

theorem wrapper_failure_emits_nothing:
  assumes "func args (snd (time_time w)) = (Inl e, w')"
  shows "measure_execution_time func args w = (Inl e, w')
       \<and> out (snd (measure_execution_time func args w)) = out w'
       \<and> reads (snd (measure_execution_time func args w)) = reads w'"
  using assms by (simp add: measure_execution_time_def time_time_def)

theorem wrapper_failure_emits_nothing_witness:
  "measure_execution_time (insert_sql_body demo_driver) (''sample_table'', other_df, ''append'')
     demo_world =
     (Inl ProgrammingError,
      snd (insert_sql_body demo_driver (''sample_table'', other_df, ''append'')
             (snd (time_time demo_world))))
   \<and> out (snd (measure_execution_time (insert_sql_body demo_driver)
                  (''sample_table'', other_df, ''append'') demo_world)) = []"
proof -
  let ?body = "insert_sql_body demo_driver (''sample_table'', other_df, ''append'')
                 (snd (time_time demo_world))"
  have "fst ?body = Inl ProgrammingError"
    by code_simp
  then have h: "?body = (Inl ProgrammingError, snd ?body)"
    by (simp add: prod_eq_iff)
  have "out (snd ?body) = []"
    by code_simp
  with wrapper_failure_emits_nothing
         [of "insert_sql_body demo_driver" "(''sample_table'', other_df, ''append'')" demo_world,
          OF h]
  show ?thesis
    by simp
qed

text \<open>
  Claim C6, as amended. The wrapper runs the original operation once, on the world in
  which the start time has just been read and with the arguments as given, and returns
  what the operation returned or raises what it raised. The database and the requests
  are those that this one run left. When the operation returned, the wrapper prints the
  formatted difference of the two readings after whatever the operation printed; when
  the operation raised, nothing is printed.
\<close>

theorem wrapper_invokes_once_and_returns:
  assumes "func args (snd (time_time w)) = (r, w')"
  shows "fst (measure_execution_time func args w) = r
       \<and> db (snd (measure_execution_time func args w)) = db w'
       \<and> calls (snd (measure_execution_time func args w)) = calls w'
       \<and> out (snd (measure_execution_time func args w)) =
           (case r of
              Inl e \<Rightarrow> out w'
            | Inr v \<Rightarrow> out w' @ [ExecutionTime
                         (strftime_HMS (gmtime (clock w' (reads w') - clock w (reads w))))])"
  using assms
  by (cases r) (simp_all add: measure_execution_time_def time_time_def print_def)

theorem wrapper_invokes_once_and_returns_witness:
  "fst (measure_execution_time (truncate_table_body demo_driver) ''sample_table'' demo_world)
     = Inr ()
   \<and> calls (snd (measure_execution_time (truncate_table_body demo_driver) ''sample_table''
                    demo_world))
     = [GetTableNames, Connect, Execute ''TRUNCATE TABLE sample_table'' [], Commit, Close]
   \<and> out (snd (measure_execution_time (truncate_table_body demo_driver) ''sample_table''
                  demo_world))
     = [TableTruncated ''sample_table'', ExecutionTime ''00-00-01'']"
proof -
  let ?body = "truncate_table_body demo_driver ''sample_table'' (snd (time_time demo_world))"
  have "fst ?body = Inr ()"
    by code_simp
  then have h: "?body = (Inr (), snd ?body)"
    by (simp add: prod_eq_iff)
  have c: "calls (snd ?body)
             = [GetTableNames, Connect, Execute ''TRUNCATE TABLE sample_table'' [], Commit, Close]"
    by code_simp
  have o: "out (snd ?body) = [TableTruncated ''sample_table'']"
    by code_simp
  have t: "strftime_HMS (gmtime (clock (snd ?body) (reads (snd ?body))
                                   - clock demo_world (reads demo_world))) = ''00-00-01''"
    by code_simp
  from wrapper_invokes_once_and_returns
         [of "truncate_table_body demo_driver" "''sample_table''" demo_world, OF h] c o t
  show ?thesis
    by simp
qed

text \<open>
  Claim C6 as stated fails: appending a dataset with a column that the table does not
  have makes the wrapped insert_sql raise, and the wrapper then prints no duration.
\<close>

theorem wrapper_no_timing_on_failure_counterexample:
  "fst (insert_sql demo_driver ''sample_table'' other_df ''append'' demo_world)
     = Inl ProgrammingError
   \<and> out (snd (insert_sql demo_driver ''sample_table'' other_df ''append'' demo_world)) = []"
  by code_simp

section \<open>The guarded methods: properties\<close>

lemmas method_defs =
  create_table_def create_table_body_def insert_sql_def insert_sql_body_def
  truncate_table_def truncate_table_body_def read_sql_def read_sql_body_def
  delete_from_table_def delete_from_table_body_def

lemma demo_table_names: "get_table_names demo_driver (db demo_world) = Inr [''sample_table'']"
  by (simp add: demo_driver_def demo_world_def store_driver_def world0_def)

text \<open>
  Claim C1. When the schema that the call reads does not list the table name, insert_sql,
  truncate_table and delete_from_table return normally and read_sql returns \<open>None\<close>. The
  world after the call is the world before it with the one schema request, the message
  of the method and the line of the decorator added: the database is untouched and no
  request other than the schema request has been sent.
\<close>

theorem absent_table_is_noop:
  assumes "get_table_names D (db w) = Inr names" and "table_name \<notin> set names"
  shows "insert_sql D table_name dataframe mode w =
           (Inr (), w\<lparr>calls := calls w @ [GetTableNames],
                       out := out w @ [TableMissingInsert table_name, elapsed_line w],
                       reads := reads w + 2\<rparr>)
       \<and> truncate_table D table_name w =
           (Inr (), w\<lparr>calls := calls w @ [GetTableNames],
                       out := out w @ [TableMissingTruncate table_name, elapsed_line w],
                       reads := reads w + 2\<rparr>)
       \<and> delete_from_table D table_name cols conditions w =
           (Inr (), w\<lparr>calls := calls w @ [GetTableNames],
                       out := out w @ [TableMissingDelete table_name, elapsed_line w],
                       reads := reads w + 2\<rparr>)
       \<and> read_sql D table_name w =
           (Inr None, w\<lparr>calls := calls w @ [GetTableNames],
                         out := out w @ [TableMissingRead table_name, elapsed_line w],
                         reads := reads w + 2\<rparr>)"
  using assms
  by (simp add: method_defs request_defs elapsed_line_def)

theorem absent_table_is_noop_witness:
  "get_table_names demo_driver (db demo_world) = Inr [''sample_table'']
   \<and> ''ghost'' \<notin> set [''sample_table'']
   \<and> insert_sql demo_driver ''ghost'' demo_df ''append'' demo_world =
        (Inr (), demo_world\<lparr>calls := calls demo_world @ [GetTableNames],
                   out := out demo_world @ [TableMissingInsert ''ghost'', elapsed_line demo_world],
                   reads := reads demo_world + 2\<rparr>)
   \<and> read_sql demo_driver ''ghost'' demo_world =
        (Inr None, demo_world\<lparr>calls := calls demo_world @ [GetTableNames],
                   out := out demo_world @ [TableMissingRead ''ghost'', elapsed_line demo_world],
                   reads := reads demo_world + 2\<rparr>)"
proof -
  have n: "''ghost'' \<notin> set [''sample_table'']"
    by simp
  from absent_table_is_noop [OF demo_table_names n, of demo_df "''append''"]
    demo_table_names n
  show ?thesis
    by simp
qed

text \<open>
  Claim C4. For a table that the schema lists and a mode that is neither \<open>append\<close> nor
  \<open>replace\<close>, insert_sql returns normally without writing and without a message of its
  own: after the schema request nothing is sent, and the only line printed is the one of
  the decorator.
\<close>

theorem unknown_mode_is_noop:
  assumes "get_table_names D (db w) = Inr names" and "table_name \<in> set names"
    and "mode \<noteq> ''append''" and "mode \<noteq> ''replace''"
  shows "insert_sql D table_name dataframe mode w =
           (Inr (), w\<lparr>calls := calls w @ [GetTableNames],
                       out := out w @ [elapsed_line w],
                       reads := reads w + 2\<rparr>)"
  using assms
  by (simp add: method_defs request_defs elapsed_line_def)

theorem unknown_mode_is_noop_witness:
  "get_table_names demo_driver (db demo_world) = Inr [''sample_table'']
   \<and> insert_sql demo_driver ''sample_table'' demo_df ''upsert'' demo_world =
        (Inr (), demo_world\<lparr>calls := calls demo_world @ [GetTableNames],
                   out := out demo_world @ [elapsed_line demo_world],
                   reads := reads demo_world + 2\<rparr>)"
proof -
  have m: "''sample_table'' \<in> set [''sample_table'']"
    by simp
  have a: "''upsert'' \<noteq> ''append''" and r: "''upsert'' \<noteq> ''replace''"
    by simp_all
  from unknown_mode_is_noop [OF demo_table_names m a r, of demo_df] demo_table_names
  show ?thesis
    by simp
qed

text \<open>
  Claim C5. For a table that the schema lists, delete_from_table with no columns or with
  no conditions prints the message that nothing was specified and returns: no connection
  is opened, no statement is executed, and the database is as it was.
\<close>

theorem delete_without_filter_is_noop:
  assumes "get_table_names D (db w) = Inr names" and "table_name \<in> set names"
    and "cols = [] \<or> conditions = []"
  shows "delete_from_table D table_name cols conditions w =
           (Inr (), w\<lparr>calls := calls w @ [GetTableNames],
                       out := out w @ [NothingSpecified, elapsed_line w],
                       reads := reads w + 2\<rparr>)"
  using assms
  by (auto simp add: method_defs request_defs elapsed_line_def)

theorem delete_without_filter_is_noop_witness:
  "get_table_names demo_driver (db demo_world) = Inr [''sample_table'']
   \<and> delete_from_table demo_driver ''sample_table'' [] [(''column1'', VStr ''value1'')]
        demo_world =
        (Inr (), demo_world\<lparr>calls := calls demo_world @ [GetTableNames],
                   out := out demo_world @ [NothingSpecified, elapsed_line demo_world],
                   reads := reads demo_world + 2\<rparr>)"
proof -
  have m: "''sample_table'' \<in> set [''sample_table'']"
    by simp
  have e: "([]::string list) = [] \<or> [(''column1'', VStr ''value1'')] = []"
    by simp
  from delete_without_filter_is_noop [OF demo_table_names m e] demo_table_names
  show ?thesis
    by simp
qed

lemma join_from_first:
  "join sep (x # xs) = x @ concat (map (\<lambda>y. sep @ y) xs)"
  by (induction xs arbitrary: x) simp_all

lemma delete_query_text:
  "delete_query table_name (c # cs) =
     ''DELETE FROM '' @ table_name @ '' WHERE '' @ c @ '' = :'' @ c
       @ concat (map (\<lambda>x. '' AND '' @ x @ '' = :'' @ x) cs)"
  by (simp add: delete_query_def join_from_first comp_def del: append.simps)

text \<open>
  Claim C2, as amended. For a table that the schema lists and non-empty columns and
  conditions, delete_from_table builds \<open>DELETE FROM table WHERE c = :c AND ...\<close>: the
  test \<open>c = :c\<close> of the first name in \<open>columns\<close>, followed by \<open>AND\<close> and the test of
  each further name, in their order, whether or not \<open>conditions\<close> has a value for the
  name. Once the connection is open it sends this text with \<open>conditions\<close> as the
  parameters, whatever the driver then answers. When the execution succeeds it commits,
  and when the commit succeeds too it prints that the data were deleted; when the
  execution fails nothing is committed and the exception goes to the caller. The
  connection is closed in every case.
\<close>

theorem delete_builds_where_from_columns:
  assumes "get_table_names D (db w) = Inr names" and "table_name \<in> set names"
    and "conditions \<noteq> []"
  shows "(let query = ''DELETE FROM '' @ table_name @ '' WHERE '' @ c @ '' = :'' @ c
                        @ concat (map (\<lambda>x. '' AND '' @ x @ '' = :'' @ x) cs);
              sent = calls w @ [GetTableNames, Connect, Execute query conditions];
              result = delete_from_table D table_name (c # cs) conditions w
          in case connect D (db w) of
               Inl e \<Rightarrow>
                 result = (Inl e, w\<lparr>calls := calls w @ [GetTableNames, Connect],
                                    reads := Suc (reads w)\<rparr>)
             | Inr d1 \<Rightarrow>
                 (case execute_text D query conditions d1 of
                    Inl e \<Rightarrow>
                      result = (Inl e, w\<lparr>db := close D d1, calls := sent @ [Close],
                                         reads := Suc (reads w)\<rparr>)
                  | Inr (r, d2) \<Rightarrow>
                      (case commit D d2 of
                         Inl e \<Rightarrow>
                           result = (Inl e, w\<lparr>db := close D d2,
                                              calls := sent @ [Commit, Close],
                                              reads := Suc (reads w)\<rparr>)
                       | Inr d3 \<Rightarrow>
                           result = (Inr (), w\<lparr>db := close D d3,
                                               calls := sent @ [Commit, Close],
                                               out := out w @ [DataDeleted table_name,
                                                               elapsed_line w],
                                               reads := reads w + 2\<rparr>))))"
  using assms unfolding delete_query_text [symmetric]
  by (simp add: Let_def method_defs request_defs elapsed_line_def
      split: sum.splits prod.splits)

theorem delete_builds_where_from_columns_witness:
  "fst (delete_from_table demo_driver ''sample_table'' [''column1'', ''column2'']
          [(''column1'', VStr ''value1''), (''column2'', VStr ''value1'')] demo_world) = Inr ()
   \<and> calls (snd (delete_from_table demo_driver ''sample_table'' [''column1'', ''column2'']
                   [(''column1'', VStr ''value1''), (''column2'', VStr ''value1'')] demo_world))
       = [GetTableNames, Connect,
          Execute ''DELETE FROM sample_table WHERE column1 = :column1 AND column2 = :column2''
            [(''column1'', VStr ''value1''), (''column2'', VStr ''value1'')],
          Commit, Close]
   \<and> committed (db (snd (delete_from_table demo_driver ''sample_table''
                           [''column1'', ''column2'']
                           [(''column1'', VStr ''value1''), (''column2'', VStr ''value1'')]
                           demo_world)))
       = [(''sample_table'',
           \<lparr>columns = [''column1'', ''column2''],
            rows = [[VStr ''value2'', VStr ''value2''], [VStr ''value3'', VStr ''value3'']]\<rparr>)]"
proof -
  let ?conds = "[(''column1'', VStr ''value1''), (''column2'', VStr ''value1'')]"
  let ?text = "''DELETE FROM sample_table WHERE column1 = :column1 AND column2 = :column2''"
  let ?left = "\<lparr>columns = [''column1'', ''column2''],
                rows = [[VStr ''value2'', VStr ''value2''], [VStr ''value3'', VStr ''value3'']]\<rparr>"
  let ?d1 = "\<lparr>committed = [(''sample_table'', demo_df)],
              session = Some [(''sample_table'', demo_df)]\<rparr>"
  let ?d2 = "\<lparr>committed = [(''sample_table'', demo_df)],
              session = Some [(''sample_table'', ?left)]\<rparr>"
  let ?d3 = "\<lparr>committed = [(''sample_table'', ?left)],
              session = Some [(''sample_table'', ?left)]\<rparr>"
  have m: "''sample_table'' \<in> set [''sample_table'']"
    by simp
  have k: "?conds \<noteq> []"
    by simp
  have h1: "connect demo_driver (db demo_world) = Inr ?d1"
    by (simp add: demo_driver_def demo_world_def store_driver_def world0_def)
  have h2: "execute_text demo_driver ?text ?conds ?d1 = Inr ((), ?d2)"
    by code_simp
  have h3: "commit demo_driver ?d2 = Inr ?d3"
    by (simp add: demo_driver_def store_driver_def)
  have cl: "committed (close demo_driver ?d3) = [(''sample_table'', ?left)]"
    by (simp add: demo_driver_def store_driver_def)
  have start: "calls demo_world = []"
    by (simp add: demo_world_def world0_def)
  from delete_builds_where_from_columns [OF demo_table_names m k, where c = "''column1''" and cs = "[''column2'']"]
    h1 h2 h3 cl start
  show ?thesis
    by (simp add: Let_def)
qed

text \<open>
  Claim C2 as stated fails: with the columns \<open>column1\<close> and \<open>column2\<close> and a condition on
  \<open>column1\<close> only, the statement that is sent still tests \<open>column2\<close>; the driver refuses
  it for the missing parameter, and nothing is committed.
\<close>

theorem delete_where_keeps_unbound_column_counterexample:
  "fst (delete_from_table demo_driver ''sample_table'' [''column1'', ''column2'']
          [(''column1'', VStr ''value1'')] demo_world) = Inl StatementError
   \<and> calls (snd (delete_from_table demo_driver ''sample_table'' [''column1'', ''column2'']
                   [(''column1'', VStr ''value1'')] demo_world))
       = [GetTableNames, Connect,
          Execute ''DELETE FROM sample_table WHERE column1 = :column1 AND column2 = :column2''
            [(''column1'', VStr ''value1'')],
          Close]"
  by code_simp

subsection \<open>The schema is read anew in every call\<close>

lemma schema_error_propagates:
  assumes "get_table_names D (db w) = Inl e"
  shows "create_table D n df w
           = (Inl e, w\<lparr>calls := calls w @ [GetTableNames], reads := Suc (reads w)\<rparr>)
       \<and> insert_sql D n df mode w
           = (Inl e, w\<lparr>calls := calls w @ [GetTableNames], reads := Suc (reads w)\<rparr>)
       \<and> truncate_table D n w
           = (Inl e, w\<lparr>calls := calls w @ [GetTableNames], reads := Suc (reads w)\<rparr>)
       \<and> read_sql D n w
           = (Inl e, w\<lparr>calls := calls w @ [GetTableNames], reads := Suc (reads w)\<rparr>)
       \<and> delete_from_table D n cols conds w
           = (Inl e, w\<lparr>calls := calls w @ [GetTableNames], reads := Suc (reads w)\<rparr>)"
  using assms by (simp add: method_defs request_defs)

lemma listed_table_acts:
  assumes "get_table_names D (db w) = Inr names" and "n \<in> set names"
  shows "create_table D n df w
           = (Inr (), w\<lparr>calls := calls w @ [GetTableNames],
                       out := out w @ [TableAlreadyExists n, elapsed_line w],
                       reads := reads w + 2\<rparr>)
       \<and> calls (snd (insert_sql D n df ''append'' w))
           = calls w @ [GetTableNames, ToSql n df Append False]
       \<and> calls (snd (insert_sql D n df ''replace'' w))
           = calls w @ [GetTableNames, ToSql n df Replace False]
       \<and> (\<exists>rest. calls (snd (truncate_table D n w))
                     = calls w @ [GetTableNames, Connect] @ rest)
       \<and> calls (snd (read_sql D n w))
           = calls w @ [GetTableNames, ReadSqlQuery (''SELECT * FROM '' @ n)]
       \<and> (cols \<noteq> [] \<and> conds \<noteq> []
            \<longrightarrow> (\<exists>rest. calls (snd (delete_from_table D n cols conds w))
                          = calls w @ [GetTableNames, Connect] @ rest))"
  using assms
  by (auto simp add: method_defs request_defs elapsed_line_def Let_def
      split: sum.splits prod.splits)

lemma unlisted_table_skips:
  assumes "get_table_names D (db w) = Inr names" and "n \<notin> set names"
  shows "calls (snd (create_table D n df w))
           = calls w @ [GetTableNames, ToSql n df Fail False]
       \<and> calls (snd (insert_sql D n df mode w)) = calls w @ [GetTableNames]
       \<and> calls (snd (truncate_table D n w)) = calls w @ [GetTableNames]
       \<and> calls (snd (read_sql D n w)) = calls w @ [GetTableNames]
       \<and> calls (snd (delete_from_table D n cols conds w)) = calls w @ [GetTableNames]"
  using assms
  by (auto simp add: method_defs request_defs Let_def split: sum.splits prod.splits)

lemma requery_create:
  assumes "db w = db w'"
  shows "fst (create_table D n df w) = fst (create_table D n df w')
       \<and> db (snd (create_table D n df w)) = db (snd (create_table D n df w'))
       \<and> (\<exists>rest. calls (snd (create_table D n df w)) = calls w @ GetTableNames # rest)"
  using assms
  by (auto simp add: method_defs request_defs Let_def split: sum.splits prod.splits)

lemma requery_insert:
  assumes "db w = db w'"
  shows "fst (insert_sql D n df mode w) = fst (insert_sql D n df mode w')
       \<and> db (snd (insert_sql D n df mode w)) = db (snd (insert_sql D n df mode w'))
       \<and> (\<exists>rest. calls (snd (insert_sql D n df mode w)) = calls w @ GetTableNames # rest)"
  using assms
  by (auto simp add: method_defs request_defs Let_def split: sum.splits prod.splits)

lemma requery_read:
  assumes "db w = db w'"
  shows "fst (read_sql D n w) = fst (read_sql D n w')
       \<and> db (snd (read_sql D n w)) = db (snd (read_sql D n w'))
       \<and> (\<exists>rest. calls (snd (read_sql D n w)) = calls w @ GetTableNames # rest)"
  using assms
  by (auto simp add: method_defs request_defs Let_def split: sum.splits prod.splits)

lemma requery_truncate:
  assumes "db w = db w'"
  shows "fst (truncate_table D n w) = fst (truncate_table D n w')
       \<and> db (snd (truncate_table D n w)) = db (snd (truncate_table D n w'))
       \<and> (\<exists>rest. calls (snd (truncate_table D n w)) = calls w @ GetTableNames # rest)"
  using assms
  by (auto simp add: method_defs request_defs Let_def split: sum.splits prod.splits)

lemma requery_delete:
  assumes "db w = db w'"
  shows "fst (delete_from_table D n cols conds w) = fst (delete_from_table D n cols conds w')
       \<and> db (snd (delete_from_table D n cols conds w))
           = db (snd (delete_from_table D n cols conds w'))
       \<and> (\<exists>rest. calls (snd (delete_from_table D n cols conds w))
                     = calls w @ GetTableNames # rest)"
  using assms
  by (auto simp add: method_defs request_defs Let_def split: sum.splits prod.splits)

text \<open>
  Claim C8. Each of create_table, insert_sql, truncate_table, read_sql and
  delete_from_table asks the driver for the table names of the database as it is at the
  call, before any other request, and what the call does is decided by that answer:
  \<^item> when the schema request raises, the exception goes to the caller and nothing else is
    sent;
  \<^item> when the answer lists the name, create_table writes nothing and the other four go
    on to their request (the write, the connection, the query);
  \<^item> when the answer does not list the name, create_table writes the table and the other
    four send nothing more.
  Nothing is carried from one call to the next: two worlds with the same database give
  the same result and the same database afterwards, whatever requests, printed lines and
  clock readings lie behind them.
\<close>

theorem schema_requeried_on_every_call:
  "(get_table_names D (db w) = Inl e \<longrightarrow>
      create_table D n df w
        = (Inl e, w\<lparr>calls := calls w @ [GetTableNames], reads := Suc (reads w)\<rparr>)
      \<and> insert_sql D n df mode w
        = (Inl e, w\<lparr>calls := calls w @ [GetTableNames], reads := Suc (reads w)\<rparr>)
      \<and> truncate_table D n w
        = (Inl e, w\<lparr>calls := calls w @ [GetTableNames], reads := Suc (reads w)\<rparr>)
      \<and> read_sql D n w
        = (Inl e, w\<lparr>calls := calls w @ [GetTableNames], reads := Suc (reads w)\<rparr>)
      \<and> delete_from_table D n cols conds w
        = (Inl e, w\<lparr>calls := calls w @ [GetTableNames], reads := Suc (reads w)\<rparr>))
   \<and> (get_table_names D (db w) = Inr names \<and> n \<in> set names \<longrightarrow>
      create_table D n df w
        = (Inr (), w\<lparr>calls := calls w @ [GetTableNames],
                    out := out w @ [TableAlreadyExists n, elapsed_line w],
                    reads := reads w + 2\<rparr>)
      \<and> calls (snd (insert_sql D n df ''append'' w))
        = calls w @ [GetTableNames, ToSql n df Append False]
      \<and> calls (snd (insert_sql D n df ''replace'' w))
        = calls w @ [GetTableNames, ToSql n df Replace False]
      \<and> (\<exists>rest. calls (snd (truncate_table D n w))
                  = calls w @ [GetTableNames, Connect] @ rest)
      \<and> calls (snd (read_sql D n w))
        = calls w @ [GetTableNames, ReadSqlQuery (''SELECT * FROM '' @ n)]
      \<and> (cols \<noteq> [] \<and> conds \<noteq> []
           \<longrightarrow> (\<exists>rest. calls (snd (delete_from_table D n cols conds w))
                         = calls w @ [GetTableNames, Connect] @ rest)))
   \<and> (get_table_names D (db w) = Inr names \<and> n \<notin> set names \<longrightarrow>
      calls (snd (create_table D n df w))
        = calls w @ [GetTableNames, ToSql n df Fail False]
      \<and> calls (snd (insert_sql D n df mode w)) = calls w @ [GetTableNames]
      \<and> calls (snd (truncate_table D n w)) = calls w @ [GetTableNames]
      \<and> calls (snd (read_sql D n w)) = calls w @ [GetTableNames]
      \<and> calls (snd (delete_from_table D n cols conds w)) = calls w @ [GetTableNames])
   \<and> (db w = db w' \<longrightarrow>
      (fst (create_table D n df w) = fst (create_table D n df w')
       \<and> db (snd (create_table D n df w)) = db (snd (create_table D n df w'))
       \<and> (\<exists>rest. calls (snd (create_table D n df w)) = calls w @ GetTableNames # rest))
      \<and> (fst (insert_sql D n df mode w) = fst (insert_sql D n df mode w')
       \<and> db (snd (insert_sql D n df mode w)) = db (snd (insert_sql D n df mode w'))
       \<and> (\<exists>rest. calls (snd (insert_sql D n df mode w)) = calls w @ GetTableNames # rest))
      \<and> (fst (truncate_table D n w) = fst (truncate_table D n w')
       \<and> db (snd (truncate_table D n w)) = db (snd (truncate_table D n w'))
       \<and> (\<exists>rest. calls (snd (truncate_table D n w)) = calls w @ GetTableNames # rest))
      \<and> (fst (read_sql D n w) = fst (read_sql D n w')
       \<and> db (snd (read_sql D n w)) = db (snd (read_sql D n w'))
       \<and> (\<exists>rest. calls (snd (read_sql D n w)) = calls w @ GetTableNames # rest))
      \<and> (fst (delete_from_table D n cols conds w) = fst (delete_from_table D n cols conds w')
       \<and> db (snd (delete_from_table D n cols conds w))
           = db (snd (delete_from_table D n cols conds w'))
       \<and> (\<exists>rest. calls (snd (delete_from_table D n cols conds w))
                     = calls w @ GetTableNames # rest)))"
  (is "?failed \<and> ?listed \<and> ?unlisted \<and> ?history")
proof -
  have a: ?failed
    by (rule impI) (rule schema_error_propagates)
  have b: ?listed
    by (rule impI, erule conjE) (rule listed_table_acts)
  have c: ?unlisted
    by (rule impI, erule conjE) (rule unlisted_table_skips)
  have d: ?history
  proof (rule impI)
    assume h: "db w = db w'"
    show "(fst (create_table D n df w) = fst (create_table D n df w')
       \<and> db (snd (create_table D n df w)) = db (snd (create_table D n df w'))
       \<and> (\<exists>rest. calls (snd (create_table D n df w)) = calls w @ GetTableNames # rest))
      \<and> (fst (insert_sql D n df mode w) = fst (insert_sql D n df mode w')
       \<and> db (snd (insert_sql D n df mode w)) = db (snd (insert_sql D n df mode w'))
       \<and> (\<exists>rest. calls (snd (insert_sql D n df mode w)) = calls w @ GetTableNames # rest))
      \<and> (fst (truncate_table D n w) = fst (truncate_table D n w')
       \<and> db (snd (truncate_table D n w)) = db (snd (truncate_table D n w'))
       \<and> (\<exists>rest. calls (snd (truncate_table D n w)) = calls w @ GetTableNames # rest))
      \<and> (fst (read_sql D n w) = fst (read_sql D n w')
       \<and> db (snd (read_sql D n w)) = db (snd (read_sql D n w'))
       \<and> (\<exists>rest. calls (snd (read_sql D n w)) = calls w @ GetTableNames # rest))
      \<and> (fst (delete_from_table D n cols conds w) = fst (delete_from_table D n cols conds w')
       \<and> db (snd (delete_from_table D n cols conds w))
           = db (snd (delete_from_table D n cols conds w'))
       \<and> (\<exists>rest. calls (snd (delete_from_table D n cols conds w))
                     = calls w @ GetTableNames # rest))"
      by (rule conjI [OF requery_create [OF h] conjI [OF requery_insert [OF h]
            conjI [OF requery_truncate [OF h] conjI [OF requery_read [OF h]
              requery_delete [OF h]]]]])
  qed
  from a b c d show ?thesis
    by (intro conjI)
qed

theorem schema_requeried_on_every_call_witness:
  "read_sql offline_driver ''sample_table'' demo_world
     = (Inl OperationalError,
        demo_world\<lparr>calls := calls demo_world @ [GetTableNames],
                    reads := Suc (reads demo_world)\<rparr>)
   \<and> calls (snd (insert_sql demo_driver ''sample_table'' demo_df ''append'' (world0 [])))
       = calls (world0 []) @ [GetTableNames]
   \<and> calls (snd (insert_sql demo_driver ''sample_table'' demo_df ''append''
                   (snd (create_table demo_driver ''sample_table'' demo_df (world0 [])))))
       = calls (snd (create_table demo_driver ''sample_table'' demo_df (world0 [])))
           @ [GetTableNames, ToSql ''sample_table'' demo_df Append False]
   \<and> fst (read_sql demo_driver ''sample_table'' demo_world)
       = fst (read_sql demo_driver ''sample_table''
                (demo_world\<lparr>calls := [GetTableNames], out := [NothingSpecified], reads := 7\<rparr>))"
proof -
  let ?w1 = "snd (create_table demo_driver ''sample_table'' demo_df (world0 []))"
  let ?w' = "demo_world\<lparr>calls := [GetTableNames], out := [NothingSpecified], reads := 7\<rparr>"
  have off: "get_table_names offline_driver (db demo_world) = Inl OperationalError"
    by (simp add: offline_driver_def)
  have g0: "get_table_names demo_driver (db (world0 [])) = Inr []"
    by (simp add: demo_driver_def store_driver_def world0_def)
  have g1: "get_table_names demo_driver (db ?w1) = Inr [''sample_table'']"
    by code_simp
  have h: "db demo_world = db ?w'"
    by simp
  have 1: "read_sql offline_driver ''sample_table'' demo_world
             = (Inl OperationalError,
                demo_world\<lparr>calls := calls demo_world @ [GetTableNames],
                            reads := Suc (reads demo_world)\<rparr>)"
    using schema_requeried_on_every_call
            [where D = offline_driver and w = demo_world and e = OperationalError
               and n = "''sample_table''"] off
    by blast
  have 2: "calls (snd (insert_sql demo_driver ''sample_table'' demo_df ''append'' (world0 [])))
             = calls (world0 []) @ [GetTableNames]"
    using schema_requeried_on_every_call
            [where D = demo_driver and w = "world0 []" and names = "[]"
               and n = "''sample_table''" and df = demo_df and mode = "''append''"] g0
    by simp
  have 3: "calls (snd (insert_sql demo_driver ''sample_table'' demo_df ''append'' ?w1))
             = calls ?w1 @ [GetTableNames, ToSql ''sample_table'' demo_df Append False]"
    using schema_requeried_on_every_call
            [where D = demo_driver and w = ?w1 and names = "[''sample_table'']"
               and n = "''sample_table''" and df = demo_df] g1
    by simp
  have 4: "fst (read_sql demo_driver ''sample_table'' demo_world)
             = fst (read_sql demo_driver ''sample_table'' ?w')"
    using schema_requeried_on_every_call
            [where D = demo_driver and w = demo_world and w' = ?w'
               and n = "''sample_table''"] h
    by blast
  from 1 2 3 4 show ?thesis
    by (intro conjI)
qed

section \<open>The guarded methods on the reference database\<close>

lemma select_text: "strip_prefix ''SELECT * FROM '' (''SELECT * FROM '' @ n) = Some n"
  by simp

lemma truncate_text: "strip_prefix ''TRUNCATE TABLE '' (''TRUNCATE TABLE '' @ n) = Some n"
  by simp

lemma map_of_new_table:
  "n \<notin> set (map fst ts) \<Longrightarrow> map_of (ts @ [(n, d)]) n = Some d"
  by (simp add: map_add_def map_of_eq_None_iff [THEN iffD2] image_iff split: option.splits)

lemma demo_name_as_written: "fold_ident ''sample_table'' = Some ''sample_table''"
  by code_simp

text \<open>
  Where the round trip holds. On the reference database, for every dataset (with any
  number of rows, none included) and every table name that is not in the schema and that
  the database reads back as itself when statement text spells it out, create_table
  followed by read_sql returns the dataset as it was given: the same columns and the same
  rows in the same order, with no index column added.
\<close>

lemma roundtrip_for_name_read_as_written:
  assumes "resolve table_name = Some table_name"
    and "table_name \<notin> set (map fst (committed (db w)))"
  shows "fst (create_table (store_driver resolve) table_name dataframe w) = Inr ()
       \<and> fst (read_sql (store_driver resolve) table_name
                (snd (create_table (store_driver resolve) table_name dataframe w)))
           = Inr (Some dataframe)"
proof -
  have absent: "map_of (committed (db w)) table_name = None"
    using assms(2) by (simp add: map_of_eq_None_iff)
  show ?thesis
    using assms absent map_of_new_table [OF assms(2), of dataframe]
    by (simp add: method_defs request_defs store_driver_def store_to_sql_def
        store_read_sql_query_def select_text del: map_of_append)
qed

lemma roundtrip_for_name_read_as_written_example:
  "fold_ident ''sample_table'' = Some ''sample_table''
   \<and> fst (create_table demo_driver ''sample_table'' demo_df (world0 [])) = Inr ()
   \<and> fst (read_sql demo_driver ''sample_table''
            (snd (create_table demo_driver ''sample_table'' demo_df (world0 []))))
       = Inr (Some demo_df)"
proof -
  have a: "''sample_table'' \<notin> set (map fst (committed (db (world0 []))))"
    by (simp add: world0_def)
  from roundtrip_for_name_read_as_written
         [where resolve = fold_ident and table_name = "''sample_table''" and w = "world0 []"
            and dataframe = demo_df, OF demo_name_as_written a]
    demo_name_as_written
  show ?thesis
    by (simp add: demo_driver_def)
qed

text \<open>
  Claim C3. The claim has create_table followed by read_sql return the dataset for every
  table name that is not in the schema. The code does not: create_table passes the name
  \<open>T\<close> to the library as a value and the table \<open>T\<close> is created, while read_sql splices
  the name into \<open>SELECT * FROM T\<close>, which PostgreSQL reads as the table \<open>t\<close>. The guard
  of read_sql finds \<open>T\<close> in the schema, the query fails, and read_sql raises instead of
  returning the dataset.
\<close>

theorem create_then_read_raises_for_folded_name:
  "fst (create_table demo_driver ''T'' demo_df (world0 [])) = Inr ()
   \<and> fst (read_sql demo_driver ''T'' (snd (create_table demo_driver ''T'' demo_df (world0 []))))
       = Inl ProgrammingError"
  by code_simp

text \<open>
  Where truncation holds. On the reference database, for every table of the schema whose
  name the database reads back as itself when statement text spells it out,
  truncate_table opens a connection, executes \<open>TRUNCATE TABLE name\<close>, commits and closes.
  Afterwards the schema lists the same tables, read_sql returns the table's columns with
  no rows, and insert_sql with mode \<open>append\<close> of a dataset whose columns are among the
  table's succeeds.
\<close>

lemma truncate_for_name_read_as_written:
  assumes "resolve table_name = Some table_name"
    and "map_of (committed (db w)) table_name = Some t"
  shows "(let D = store_driver resolve; w1 = snd (truncate_table D table_name w)
          in fst (truncate_table D table_name w) = Inr ()
           \<and> calls w1 = calls w @ [GetTableNames, Connect,
                                    Execute (''TRUNCATE TABLE '' @ table_name) [], Commit, Close]
           \<and> map fst (committed (db w1)) = map fst (committed (db w))
           \<and> fst (read_sql D table_name w1) = Inr (Some (t\<lparr>rows := []\<rparr>))
           \<and> (set (columns df) \<subseteq> set (columns t)
                \<longrightarrow> fst (insert_sql D table_name df ''append'' w1) = Inr ()))"
proof -
  have present: "table_name \<in> set (map fst (committed (db w)))"
    using assms(2) by (metis map_of_eq_None_iff option.distinct(1) set_map)
  show ?thesis
    using assms present
    by (simp add: Let_def method_defs request_defs store_driver_def store_to_sql_def
        store_read_sql_query_def store_execute_def update_table_def select_text truncate_text
        update_conv' update_keys)
qed

lemma truncate_for_name_read_as_written_example:
  "map_of (committed (db demo_world)) ''sample_table'' = Some demo_df
   \<and> fst (truncate_table demo_driver ''sample_table'' demo_world) = Inr ()
   \<and> fst (read_sql demo_driver ''sample_table''
            (snd (truncate_table demo_driver ''sample_table'' demo_world)))
       = Inr (Some (demo_df\<lparr>rows := []\<rparr>))
   \<and> fst (insert_sql demo_driver ''sample_table'' demo_df ''append''
            (snd (truncate_table demo_driver ''sample_table'' demo_world)))
       = Inr ()"
proof -
  have t: "map_of (committed (db demo_world)) ''sample_table'' = Some demo_df"
    by (simp add: demo_world_def world0_def)
  from truncate_for_name_read_as_written
         [where resolve = fold_ident and table_name = "''sample_table''" and w = demo_world
            and t = demo_df and df = demo_df, OF demo_name_as_written t]
    t
  show ?thesis
    by (simp add: Let_def demo_driver_def)
qed

text \<open>
  Claim C7. The claim has truncate_table remove all rows of every existing table. The
  code does not: for the existing table \<open>T\<close> the guard passes and truncate_table sends
  \<open>TRUNCATE TABLE T\<close>, which PostgreSQL reads as the table \<open>t\<close>; the statement fails,
  truncate_table raises, and the rows of \<open>T\<close> are still there.
\<close>

theorem truncate_raises_for_folded_name:
  "fst (truncate_table demo_driver ''T'' (world0 [(''T'', demo_df)])) = Inl ProgrammingError
   \<and> committed (db (snd (truncate_table demo_driver ''T'' (world0 [(''T'', demo_df)]))))
       = [(''T'', demo_df)]"
  by code_simp

end
